theory Spec2Isabelle
  imports Complex_Main "HOL-Library.AList" "HOL-Library.Sublist"
begin

unbundle bit_operations_syntax

section \<open>Python values and exceptions\<close>

text \<open>
  The exceptions the collector can raise or let through. A raise is the value
  \<open>Inl e\<close> of a result \<open>error + 'a\<close>.
\<close>

datatype error =
    PostgresCollectorException
  | AssertionError
  | IndexError
  | KeyError
  | TypeError
  | ValueError
  | AttributeError
  | ZeroDivisionError
  | DatabaseError

definition bindE :: "error + 'a \<Rightarrow> ('a \<Rightarrow> error + 'b) \<Rightarrow> error + 'b" where
  "bindE m f = (case m of Inl e \<Rightarrow> Inl e | Inr x \<Rightarrow> f x)"

section \<open>Target-list rendering\<close>

text \<open>
  Python's \<open>str\<close> of an integer: decimal digits, with a leading minus sign below zero.
\<close>

definition digit_char :: "nat \<Rightarrow> char" where
  "digit_char d =
     (if d = 0 then CHR ''0'' else if d = 1 then CHR ''1'' else if d = 2 then CHR ''2''
      else if d = 3 then CHR ''3'' else if d = 4 then CHR ''4'' else if d = 5 then CHR ''5''
      else if d = 6 then CHR ''6'' else if d = 7 then CHR ''7'' else if d = 8 then CHR ''8''
      else CHR ''9'')"

fun digits_of_nat :: "nat \<Rightarrow> string" where
  "digits_of_nat n =
     (if n < 10 then [digit_char n]
      else digits_of_nat (n div 10) @ [digit_char (n mod 10)])"

declare digits_of_nat.simps [simp del]

definition str_int :: "int \<Rightarrow> string" where
  "str_int i = (if i < 0 then CHR ''-'' # digits_of_nat (nat (- i)) else digits_of_nat (nat i))"

text \<open>\<open>sep.join(xs)\<close>.\<close>

fun join :: "'a list \<Rightarrow> 'a list list \<Rightarrow> 'a list" where
  "join sep [] = []"
| "join sep [x] = x"
| "join sep (x # y # ys) = x @ sep @ join sep (y # ys)"

text \<open>
  Python's \<open>str\<close> of a tuple of integers: \<open>()\<close>, \<open>(x,)\<close> for one element, and the
  elements separated by a comma and a space otherwise.
\<close>

definition str_tuple :: "int list \<Rightarrow> string" where
  "str_tuple xs =
     (if xs = [] then ''()''
      else if length xs = 1 then ''('' @ str_int (xs ! 0) @ '',)''
      else ''('' @ join '', '' (map str_int xs) @ '')'')"

text \<open>\<open>tuple(row[0] for row in rows)\<close>: an empty row raises IndexError.\<close>

fun first_column :: "int list list \<Rightarrow> error + int list" where
  "first_column [] = Inr []"
| "first_column (row # rows) =
     (case row of
        [] \<Rightarrow> Inl IndexError
      | x # _ \<Rightarrow> bindE (first_column rows) (\<lambda>xs. Inr (x # xs)))"

text \<open>
  The expression of \<open>get_target_table_info\<close> that renders the selected table ids.
\<close>

definition target_tables_str :: "int list \<Rightarrow> string" where
  "target_tables_str target_tables =
     (if length target_tables > 1 then str_tuple target_tables
      else if length target_tables = 1 then ''('' @ str_int (target_tables ! 0) @ '')''
      else ''(0)'')"

text \<open>
  \<open>get_target_table_info\<close>, as a function of the rows that the ranking query returned
  (the query text itself is not part of the sources at hand).
\<close>

record target_table_info =
  target_tables :: "int list"
  target_tables_string :: string

definition get_target_table_info :: "int list list \<Rightarrow> error + target_table_info" where
  "get_target_table_info target_tables_tuple =
     bindE (first_column target_tables_tuple)
       (\<lambda>tt. Inr \<lparr> target_tables = tt, target_tables_string = target_tables_str tt \<rparr>)"

text \<open>The same expression in \<open>collect_index_metrics\<close>, for the selected index ids.\<close>

definition target_indexes_str :: "int list \<Rightarrow> string" where
  "target_indexes_str target_indexes =
     (if length target_indexes > 1 then str_tuple target_indexes
      else if length target_indexes = 1 then ''('' @ str_int (target_indexes ! 0) @ '')''
      else ''(0)'')"

section \<open>Padding of a table's tuples\<close>

text \<open>
  A row of the padding helper query: \<open>(relid, attname, attalign, avg_width)\<close>.
\<close>

type_synonym field_info = "int \<times> string \<times> string \<times> int"

definition attalign :: "field_info \<Rightarrow> string" where
  "attalign field = fst (snd (snd field))"

definition avg_width :: "field_info \<Rightarrow> int" where
  "avg_width field = snd (snd (snd field))"

text \<open>
  The loop of \<open>_calculate_padding_size_for_table\<close> over the columns after the first.
  The table \<open>ALIGNMENT_DICT\<close> lives in a module that is not part of the sources at hand,
  so it is a parameter: a dictionary from alignment codes to byte counts, whose missing
  keys raise KeyError. Python's integers are unbounded, and so are \<open>AND\<close> and \<open>NOT\<close>
  on \<open>int\<close>.
\<close>

fun padding_loop ::
  "(string \<rightharpoonup> int) \<Rightarrow> field_info list \<Rightarrow> int \<Rightarrow> int \<Rightarrow> error + (int \<times> int)" where
  "padding_loop ALIGNMENT_DICT [] padding offset = Inr (padding, offset)"
| "padding_loop ALIGNMENT_DICT (field # rest) padding offset =
     (case ALIGNMENT_DICT (attalign field) of
        None \<Rightarrow> Inl KeyError
      | Some cur_alignment \<Rightarrow>
          (let cur_alignment_mask = cur_alignment - 1;
               padded_size = (offset + cur_alignment_mask) AND (NOT cur_alignment_mask)
           in padding_loop ALIGNMENT_DICT rest
                (padding + (padded_size - offset)) (padded_size + avg_width field)))"

definition calculate_padding_size_for_table ::
  "(string \<rightharpoonup> int) \<Rightarrow> field_info list \<Rightarrow> error + int" where
  "calculate_padding_size_for_table ALIGNMENT_DICT table_fields_info =
     (case table_fields_info of
        [] \<Rightarrow> Inl IndexError
      | field0 # rest \<Rightarrow>
          bindE (padding_loop ALIGNMENT_DICT rest 0 (avg_width field0))
            (\<lambda>(padding, offset).
               let padded_size = (offset + 3) AND (NOT 3)
               in Inr (padding + (padded_size - offset))))"

text \<open>
  The padding rule in the words of the specification, over the alignments and widths
  of the columns: the offset starts at the first column's width; each later column
  rounds the offset up with \<open>(offset + mask) AND NOT mask\<close>, \<open>mask = align - 1\<close>,
  adds the difference to the padding and advances the offset by its width; one last
  step aligns to 4 bytes.
\<close>

definition round_up_mask :: "int \<Rightarrow> int \<Rightarrow> int" where
  "round_up_mask offset align = (offset + (align - 1)) AND (NOT (align - 1))"

fun spec_padding_from :: "int \<Rightarrow> (int \<times> int) list \<Rightarrow> int" where
  "spec_padding_from offset [] = round_up_mask offset 4 - offset"
| "spec_padding_from offset ((align, width) # cols) =
     (round_up_mask offset align - offset)
       + spec_padding_from (round_up_mask offset align + width) cols"

definition spec_padding :: "(int \<times> int) list \<Rightarrow> int" where
  "spec_padding cols = spec_padding_from (snd (hd cols)) (tl cols)"

section \<open>Bloat ratio of a table\<close>

text \<open>
  Python's floats are idealised as real numbers: the arithmetic below is exact, and
  overflow, NaN and rounding are outside the model. Division and modulo by zero raise
  ZeroDivisionError, as they do in Python for floats and for integers.
\<close>

definition py_truediv :: "real \<Rightarrow> real \<Rightarrow> error + real" where
  "py_truediv a b = (if b = 0 then Inl ZeroDivisionError else Inr (a / b))"

definition py_fmod :: "real \<Rightarrow> real \<Rightarrow> error + real" where
  "py_fmod a b = (if b = 0 then Inl ZeroDivisionError else Inr (a - b * of_int \<lfloor>a / b\<rfloor>))"

definition py_imod :: "int \<Rightarrow> int \<Rightarrow> error + int" where
  "py_imod a b = (if b = 0 then Inl ZeroDivisionError else Inr (a mod b))"

text \<open>
  The local \<open>tpl_size\<close> of \<open>_calculate_bloat_ratio_for_table\<close>; \<open>tpl_data_size\<close> here is
  the value after the padding has been added.
\<close>

definition tpl_size_of :: "real \<Rightarrow> real \<Rightarrow> int \<Rightarrow> error + real" where
  "tpl_size_of tpl_hdr_size tpl_data_size ma =
     bindE (py_fmod tpl_hdr_size (of_int ma)) (\<lambda>hdr_rem.
     bindE (py_imod \<lceil>tpl_data_size\<rceil> ma) (\<lambda>data_rem.
       Inr (4 + tpl_hdr_size + tpl_data_size + 2 * of_int ma
              - (if hdr_rem = 0 then of_int ma else hdr_rem)
              - (if data_rem = 0 then of_int ma else of_int data_rem))))"

text \<open>The local \<open>est_tblpages_ff\<close>.\<close>

definition est_tblpages_ff_of ::
  "int \<Rightarrow> real \<Rightarrow> real \<Rightarrow> int \<Rightarrow> real \<Rightarrow> real \<Rightarrow> real \<Rightarrow> real \<Rightarrow> error + int" where
  "est_tblpages_ff_of padding_size tpl_data_size tpl_hdr_size ma reltuples bs page_hdr fillfactor =
     bindE (tpl_size_of tpl_hdr_size (tpl_data_size + of_int padding_size) ma) (\<lambda>tpl_size.
     bindE (py_truediv ((bs - page_hdr) * fillfactor) (tpl_size * 100)) (\<lambda>tuples_per_page.
     bindE (py_truediv reltuples tuples_per_page) (\<lambda>q.
       Inr \<lceil>q\<rceil>)))"

text \<open>The last expression: the division is evaluated only in the positive branch.\<close>

definition bloat_ratio_of :: "real \<Rightarrow> int \<Rightarrow> error + real" where
  "bloat_ratio_of tblpages est_tblpages_ff =
     (if tblpages - of_int est_tblpages_ff > 0
      then py_truediv (100 * (tblpages - of_int est_tblpages_ff)) tblpages
      else Inr 0)"

definition calculate_bloat_ratio_for_table ::
  "bool \<Rightarrow> int \<Rightarrow> real \<Rightarrow> real \<Rightarrow> int \<Rightarrow> real \<Rightarrow> real \<Rightarrow> real \<Rightarrow> real \<Rightarrow> real
     \<Rightarrow> error + real option" where
  "calculate_bloat_ratio_for_table is_na padding_size tpl_data_size tpl_hdr_size ma
       tblpages reltuples bs page_hdr fillfactor =
     (if is_na then Inr None
      else
        bindE (est_tblpages_ff_of padding_size tpl_data_size tpl_hdr_size ma
                 reltuples bs page_hdr fillfactor) (\<lambda>est_tblpages_ff.
        bindE (bloat_ratio_of tblpages est_tblpages_ff) (\<lambda>ratio.
          Inr (Some ratio))))"


text \<open>
  Modelled from the spec: the table \<open>ALIGNMENT_DICT\<close> of the module
  \<open>pg_table_level_stats_sqls\<close>, which is not among the sources. The specification gives
  the alignment requirements 1, 2, 4 and 8 bytes by alignment class; the codes are those
  of PostgreSQL's \<open>pg_attribute.attalign\<close>, as in the example row \<open>(1544350,
  'fixture_id', 'i', 4)\<close> of the source. It serves as a concrete dictionary where one is
  needed.
\<close>

definition sample_alignment_dict :: "string \<rightharpoonup> int" where
  "sample_alignment_dict = map_of [(''c'', 1), (''s'', 2), (''i'', 4), (''d'', 8)]"

section \<open>Python values\<close>

text \<open>
  A Python string is a sequence of Unicode code points. The string literals of the
  program are ASCII, and \<open>ascii\<close> gives the Python string of one; the strings that
  come from the database are arbitrary.
\<close>

type_synonym pystr = "int list"

definition ascii :: "string \<Rightarrow> pystr" where
  "ascii s = map of_char s"

text \<open>
  The values that travel between the database driver and the collector: the driver's
  results, the rows that \<open>_get_metrics\<close> builds and the records of the metrics list.
  Floats are idealised as reals and decimals as rationals. The type \<open>'dt\<close> stands for
  \<open>datetime\<close>. A dictionary is an association list in insertion order.
\<close>

datatype 'dt pyval =
    PNone
  | PBool bool
  | PInt int
  | PFloat real
  | PDecimal rat
  | PStr pystr
  | PDatetime 'dt
  | PList "'dt pyval list"
  | PDict "('dt pyval \<times> 'dt pyval) list"

type_synonym 'dt dict = "('dt pyval \<times> 'dt pyval) list"

text \<open>
  The standard-library functions whose results the collector only passes on are
  parameters: \<open>datetime.isoformat\<close>, and the parser behind \<open>int\<close> of a string
  (\<open>None\<close> where Python raises ValueError).
\<close>

record 'dt pylib =
  isoformat :: "'dt \<Rightarrow> pystr"
  int_of_str :: "pystr \<Rightarrow> int option"

text \<open>
  Dictionary keys: Python hashes equal numbers alike, so \<open>True\<close>, \<open>1\<close> and \<open>1.0\<close> are
  one key; lists and dictionaries are unhashable and raise TypeError.
\<close>

definition hashable_key :: "'dt pyval \<Rightarrow> error + 'dt pyval" where
  "hashable_key k =
     (case k of
        PBool b \<Rightarrow> Inr (PInt (if b then 1 else 0))
      | PFloat r \<Rightarrow> Inr (if of_int \<lfloor>r\<rfloor> = r then PInt \<lfloor>r\<rfloor> else PFloat r)
      | PDecimal d \<Rightarrow> Inr (if of_int \<lfloor>d\<rfloor> = d then PInt \<lfloor>d\<rfloor> else PDecimal d)
      | PList _ \<Rightarrow> Inl TypeError
      | PDict _ \<Rightarrow> Inl TypeError
      | _ \<Rightarrow> Inr k)"

text \<open>\<open>d[k] = v\<close>, \<open>del d[k]\<close>, \<open>k in d\<close>, \<open>d[k]\<close> and \<open>d.update(e)\<close> for string keys.\<close>

definition setitem :: "pystr \<Rightarrow> 'dt pyval \<Rightarrow> 'dt dict \<Rightarrow> 'dt dict" where
  "setitem k v d = AList.update (PStr k) v d"

definition delitem :: "pystr \<Rightarrow> 'dt dict \<Rightarrow> 'dt dict" where
  "delitem k d = AList.delete (PStr k) d"

definition contains :: "pystr \<Rightarrow> 'dt dict \<Rightarrow> bool" where
  "contains k d = (map_of d (PStr k) \<noteq> None)"

definition getitem :: "pystr \<Rightarrow> 'dt dict \<Rightarrow> error + 'dt pyval" where
  "getitem k d = (case map_of d (PStr k) of None \<Rightarrow> Inl KeyError | Some v \<Rightarrow> Inr v)"

definition dict_update :: "'dt dict \<Rightarrow> 'dt dict \<Rightarrow> 'dt dict" where
  "dict_update d e = fold (\<lambda>(k, v). AList.update k v) e d"

text \<open>\<open>xs[0]\<close>.\<close>

definition index0 :: "'a list \<Rightarrow> error + 'a" where
  "index0 xs = (case xs of [] \<Rightarrow> Inl IndexError | x # _ \<Rightarrow> Inr x)"

text \<open>\<open>int(v)\<close>: numbers are truncated towards zero.\<close>

definition py_int :: "'dt pylib \<Rightarrow> 'dt pyval \<Rightarrow> error + int" where
  "py_int lib v =
     (case v of
        PInt i \<Rightarrow> Inr i
      | PBool b \<Rightarrow> Inr (if b then 1 else 0)
      | PFloat r \<Rightarrow> Inr (if r < 0 then \<lceil>r\<rceil> else \<lfloor>r\<rfloor>)
      | PDecimal d \<Rightarrow> Inr (if d < 0 then \<lceil>d\<rceil> else \<lfloor>d\<rfloor>)
      | PStr s \<Rightarrow> (case int_of_str lib s of None \<Rightarrow> Inl ValueError | Some i \<Rightarrow> Inr i)
      | _ \<Rightarrow> Inl TypeError)"

text \<open>\<open>v == 1\<close>.\<close>

definition py_eq_one :: "'dt pyval \<Rightarrow> bool" where
  "py_eq_one v =
     (case v of
        PInt i \<Rightarrow> i = 1
      | PBool b \<Rightarrow> b
      | PFloat r \<Rightarrow> r = 1
      | PDecimal d \<Rightarrow> d = 1
      | _ \<Rightarrow> False)"

section \<open>Strings\<close>

text \<open>
  \<open>s.replace(a, b)\<close> for single characters \<open>a\<close>, with \<open>b\<close> one character or empty.
\<close>

definition replace_char :: "'a \<Rightarrow> 'a list \<Rightarrow> 'a list \<Rightarrow> 'a list" where
  "replace_char a b s = concat (map (\<lambda>c. if c = a then b else [c]) s)"

text \<open>
  \<open>str.isspace\<close> on one code point: the characters of Unicode's category \<open>Zs\<close> and of
  the bidirectional classes \<open>WS\<close>, \<open>B\<close> and \<open>S\<close>, that is U+0009 to U+000D, U+001C to
  U+0020, U+0085, U+00A0, U+1680, U+2000 to U+200A, U+2028, U+2029, U+202F, U+205F and
  U+3000. \<open>s.split()\<close> cuts at runs of such characters and returns no empty word.
\<close>

definition py_isspace :: "int \<Rightarrow> bool" where
  "py_isspace c =
     ((9 \<le> c \<and> c \<le> 13) \<or> (28 \<le> c \<and> c \<le> 32) \<or> c = 133 \<or> c = 160 \<or> c = 5760
      \<or> (8192 \<le> c \<and> c \<le> 8202) \<or> c = 8232 \<or> c = 8233 \<or> c = 8239 \<or> c = 8287
      \<or> c = 12288)"

fun split_ws :: "pystr \<Rightarrow> pystr \<Rightarrow> pystr list" where
  "split_ws w [] = (if w = [] then [] else [w])"
| "split_ws w (c # cs) =
     (if py_isspace c then (if w = [] then split_ws [] cs else w # split_ws [] cs)
      else split_ws (w @ [c]) cs)"

definition py_split :: "pystr \<Rightarrow> pystr list" where
  "py_split s = split_ws [] s"

text \<open>\<open>s.split(sep)\<close> for a one-character separator: empty words are kept.\<close>

fun split_on :: "'a \<Rightarrow> 'a list \<Rightarrow> 'a list \<Rightarrow> 'a list list" where
  "split_on sep w [] = [w]"
| "split_on sep w (c # cs) =
     (if c = sep then w # split_on sep [] cs else split_on sep (w @ [c]) cs)"

section \<open>The database connection\<close>

text \<open>
  What the collector sends over the connection, in order: a statement whose rows are
  fetched (\<open>_cmd\<close>), a statement run without fetching (\<open>_cmd_wo_fetch\<close>), a statement run
  on a cursor of the connection directly, a commit and a rollback.
\<close>

datatype event =
    Fetch string
  | NoFetch string
  | Execute string
  | Commit
  | Rollback

text \<open>
  The server and the driver are outside the collector. They are a parameter: an answer
  to each request, which may depend on everything sent before. \<open>fetchall\<close> is \<open>None\<close>
  when the driver raises, and otherwise the rows and the column names; the other answers
  say whether the call went through.
\<close>

record 'dt database =
  fetchall :: "event list \<Rightarrow> string \<Rightarrow> ('dt pyval list list \<times> pystr list) option"
  execute_ok :: "event list \<Rightarrow> string \<Rightarrow> bool"
  commit_ok :: "event list \<Rightarrow> bool"
  rollback_ok :: "event list \<Rightarrow> bool"

text \<open>
  The state that the collector changes: the requests sent so far, and the list objects
  of the caller, by reference.
\<close>

record 'dt state =
  trace :: "event list"
  lists :: "nat \<Rightarrow> 'dt pyval list"

type_synonym ('dt, 'a) prog = "'dt state \<Rightarrow> (error + 'a) \<times> 'dt state"

definition returnS :: "'a \<Rightarrow> ('dt, 'a) prog" where
  "returnS x = (\<lambda>s. (Inr x, s))"

definition raiseS :: "error \<Rightarrow> ('dt, 'a) prog" where
  "raiseS e = (\<lambda>s. (Inl e, s))"

definition liftE :: "error + 'a \<Rightarrow> ('dt, 'a) prog" where
  "liftE r = (\<lambda>s. (r, s))"

definition bindS :: "('dt, 'a) prog \<Rightarrow> ('a \<Rightarrow> ('dt, 'b) prog) \<Rightarrow> ('dt, 'b) prog" where
  "bindS m f = (\<lambda>s. case m s of (Inl e, s') \<Rightarrow> (Inl e, s') | (Inr x, s') \<Rightarrow> f x s')"

text \<open>\<open>metrics.append(metric)\<close> on the list object \<open>metrics\<close>.\<close>

definition list_append :: "nat \<Rightarrow> 'dt pyval \<Rightarrow> ('dt, unit) prog" where
  "list_append metrics metric =
     (\<lambda>s. (Inr (), s\<lparr>lists := (lists s)(metrics := lists s metrics @ [metric])\<rparr>))"

text \<open>\<open>_cmd_wo_fetch\<close> and \<open>_cmd\<close>: every failure of the driver becomes the collector's exception.\<close>

definition cmd_wo_fetch :: "'dt database \<Rightarrow> string \<Rightarrow> ('dt, unit) prog" where
  "cmd_wo_fetch db sql =
     (\<lambda>s. if execute_ok db (trace s) sql
          then (Inr (), s\<lparr>trace := trace s @ [NoFetch sql]\<rparr>)
          else (Inl PostgresCollectorException, s\<lparr>trace := trace s @ [NoFetch sql]\<rparr>))"

definition cmd :: "'dt database \<Rightarrow> string \<Rightarrow> ('dt, 'dt pyval list list \<times> pystr list) prog" where
  "cmd db sql =
     (\<lambda>s. case fetchall db (trace s) sql of
            None \<Rightarrow> (Inl PostgresCollectorException, s\<lparr>trace := trace s @ [Fetch sql]\<rparr>)
          | Some (res, meta) \<Rightarrow> (Inr (res, meta), s\<lparr>trace := trace s @ [Fetch sql]\<rparr>))"

section \<open>Reading metrics\<close>

text \<open>
  The three statements of \<open>_get_metrics\<close> on a string: tabs (code point 9) removed,
  newlines (code point 10) removed, and the words joined with single spaces.
\<close>

definition clean_str :: "pystr \<Rightarrow> pystr" where
  "clean_str s = join (ascii '' '') (py_split (replace_char 10 [] (replace_char 9 [] s)))"

text \<open>The normalisation of one value that is not null, in \<open>_get_metrics\<close>.\<close>

definition normalize_val :: "'dt pylib \<Rightarrow> 'dt pyval \<Rightarrow> 'dt pyval" where
  "normalize_val lib val =
     (case val of
        PDatetime d \<Rightarrow> PStr (isoformat lib d)
      | PDecimal d \<Rightarrow> PFloat (of_rat d)
      | PStr s \<Rightarrow> PStr (clean_str s)
      | _ \<Rightarrow> val)"

text \<open>The inner loop over the values of one row; \<open>col[idx]\<close> raises IndexError.\<close>

fun row_loop ::
  "'dt pylib \<Rightarrow> pystr list \<Rightarrow> nat \<Rightarrow> 'dt pyval list \<Rightarrow> 'dt dict \<Rightarrow> error + 'dt dict" where
  "row_loop lib col idx [] row = Inr row"
| "row_loop lib col idx (val # data) row =
     (if val \<noteq> PNone
      then (if idx < length col
            then row_loop lib col (Suc idx) data (setitem (col ! idx) (normalize_val lib val) row)
            else Inl IndexError)
      else row_loop lib col (Suc idx) data row)"

text \<open>The outer loop over the rows.\<close>

fun rows_loop ::
  "'dt pylib \<Rightarrow> pystr list \<Rightarrow> 'dt pyval list list \<Rightarrow> 'dt dict list \<Rightarrow> error + 'dt dict list" where
  "rows_loop lib col [] metrics = Inr metrics"
| "rows_loop lib col (data # ret) metrics =
     bindE (row_loop lib col 0 data [])
       (\<lambda>row. rows_loop lib col ret (metrics @ [row]))"

definition rows_to_metrics ::
  "'dt pylib \<Rightarrow> 'dt pyval list list \<Rightarrow> pystr list \<Rightarrow> error + 'dt dict list" where
  "rows_to_metrics lib ret col = (if length ret > 0 then rows_loop lib col ret [] else Inr [])"

definition get_metrics :: "'dt database \<Rightarrow> 'dt pylib \<Rightarrow> string \<Rightarrow> ('dt, 'dt dict list) prog" where
  "get_metrics db lib query =
     bindS (cmd db query) (\<lambda>(ret, col). liftE (rows_to_metrics lib ret col))"

section \<open>Statement statistics\<close>

definition check_module_sql :: string where
  "check_module_sql = ''SELECT count(*) FROM pg_extension where extname='pg_stat_statements';''"

definition load_module_sql :: string where
  "load_module_sql = ''CREATE EXTENSION pg_stat_statements;''"

text \<open>
  \<open>_load_stat_statements\<close>. A failure of the install or of its commit is caught and
  followed by a rollback; a failure of the rollback leaves the function as the driver's
  own exception.
\<close>

definition load_stat_statements :: "'dt database \<Rightarrow> ('dt, bool) prog" where
  "load_stat_statements db =
     bindS (cmd db check_module_sql) (\<lambda>(res, meta).
     bindS (liftE (bindE (index0 res) index0)) (\<lambda>v.
       if py_eq_one v then returnS True
       else (\<lambda>s.
         let s1 = s\<lparr>trace := trace s @ [Execute load_module_sql]\<rparr> in
         if execute_ok db (trace s) load_module_sql
         then (let s2 = s1\<lparr>trace := trace s1 @ [Commit]\<rparr> in
               if commit_ok db (trace s1) then (Inr True, s2)
               else (let s3 = s2\<lparr>trace := trace s2 @ [Rollback]\<rparr> in
                     if rollback_ok db (trace s2) then (Inr False, s3)
                     else (Inl DatabaseError, s3)))
         else (let s3 = s1\<lparr>trace := trace s1 @ [Rollback]\<rparr> in
               if rollback_ok db (trace s1) then (Inr False, s3)
               else (Inl DatabaseError, s3)))))"

definition PG_STAT_STATEMENTS_EDA_SQL :: string where
  "PG_STAT_STATEMENTS_EDA_SQL = ''SELECT queryid, query,  calls, total_exec_time as wait_time, mean_exec_time as latency, blk_read_time+blk_write_time as io, \<newline>            shared_blks_hit,shared_blks_read,shared_blks_dirtied, shared_blks_written, local_blks_hit, local_blks_read, local_blks_dirtied, local_blks_written, \<newline>            temp_blks_read, temp_blks_written, blk_read_time, blk_write_time FROM pg_stat_statements;''"

definition statements_reset_sql :: string where
  "statements_reset_sql = ''select pg_stat_statements_reset(0);''"

text \<open>
  \<open>_get_stat_statements\<close>. Only the collector's exception is caught. When the read
  succeeds and the reset fails, the rows read are returned.
\<close>

definition get_stat_statements :: "'dt database \<Rightarrow> 'dt pylib \<Rightarrow> ('dt, 'dt dict list) prog" where
  "get_stat_statements db lib =
     bindS (load_stat_statements db) (\<lambda>success.
       if success
       then (\<lambda>s. case get_metrics db lib PG_STAT_STATEMENTS_EDA_SQL s of
                   (Inl e, s') \<Rightarrow>
                     if e = PostgresCollectorException then (Inr [], s') else (Inl e, s')
                 | (Inr res, s') \<Rightarrow>
                     (case cmd_wo_fetch db statements_reset_sql s' of
                        (Inl e, s'') \<Rightarrow>
                          if e = PostgresCollectorException then (Inr res, s'') else (Inl e, s'')
                      | (Inr u, s'') \<Rightarrow> (Inr res, s'')))
       else returnS [])"

section \<open>The collection cycles\<close>

definition TABLE_STAT :: string where
  "TABLE_STAT = ''\<newline>SELECT\<newline>  sum(seq_scan) as seq_scan,\<newline>  sum(seq_tup_read) as seq_tup_read,\<newline>  sum(idx_scan) as idx_scan,\<newline>  sum(idx_tup_fetch) as idx_tup_fetch,\<newline>  sum(n_tup_ins) as n_tup_ins,\<newline>  sum(n_tup_upd) as n_tup_upd,\<newline>  sum(n_tup_del) as n_tup_del,\<newline>  sum(n_tup_hot_upd) as n_tup_hot_upd,\<newline>  sum(n_live_tup) as n_live_tup,\<newline>  sum(n_dead_tup) as n_dead_tup,\<newline>  sum(n_mod_since_analyze) as n_mod_since_analyze,\<newline>  sum(vacuum_count) as vacuum_count,\<newline>  sum(autovacuum_count) as autovacuum_count,\<newline>  sum(analyze_count) as analyze_count,\<newline>  sum(autoanalyze_count) as autoanalyze_count\<newline>FROM\<newline>  pg_stat_user_tables;\<newline>''"

definition INDEX_STAT :: string where
  "INDEX_STAT = ''\<newline>SELECT\<newline>  sum(idx_scan) as idx_scan,\<newline>  sum(idx_tup_read) as idx_tup_read,\<newline>  sum(idx_tup_fetch) as idx_tup_fetch\<newline>FROM\<newline>  pg_stat_user_indexes;\<newline>''"

definition TABLE_STATIO :: string where
  "TABLE_STATIO = ''\<newline>SELECT\<newline>  sum(heap_blks_read) as heap_blks_read,\<newline>  sum(heap_blks_hit) as heap_blks_hit,\<newline>  sum(idx_blks_read) as idx_blks_read,\<newline>  sum(idx_blks_hit) as idx_blks_hit,\<newline>  sum(toast_blks_read) as toast_blks_read,\<newline>  sum(toast_blks_hit) as toast_blks_hit,\<newline>  sum(tidx_blks_read) as tidx_blks_read,\<newline>  sum(tidx_blks_hit) as tidx_blks_hit\<newline>FROM\<newline>  pg_statio_user_tables;\<newline>''"

definition INDEX_STATIO :: string where
  "INDEX_STATIO = ''\<newline>SELECT\<newline>  sum(idx_blks_read) as idx_blks_read,\<newline>  sum(idx_blks_hit) as idx_blks_hit\<newline>FROM\<newline>  pg_statio_user_indexes;\<newline>''"

definition PG_STAT_VIEWS_LOCAL_RAW_database :: "string list" where
  "PG_STAT_VIEWS_LOCAL_RAW_database = [''pg_stat_database'', ''pg_stat_database_conflicts'']"

definition PG_STAT_VIEWS_LOCAL_KEY_database :: string where
  "PG_STAT_VIEWS_LOCAL_KEY_database = ''datid''"

definition activity_queries :: "string list" where
  "activity_queries =
     [''select extract(epoch from (NOW() - min(backend_start))) as oldest_backend_time_sec from pg_stat_activity;'',
      ''select extract(epoch from (NOW() - min(query_start))) as longest_query_time_sec from pg_stat_activity where state = 'active';'',
      ''select extract(epoch from (NOW() - min(xact_start))) as longest_transaction_time_sec from pg_stat_activity where state = 'active';'',
      ''SELECT count(*) as num_sessions FROM pg_stat_activity WHERE state = 'active';'',
      ''SELECT count(*) as num_wait_sessions FROM pg_stat_activity WHERE wait_event_type is not null;'']"

definition active_sessions_sql :: string where
  "active_sessions_sql = ''select state, count(*) from pg_stat_activity group by state having state is not null;''"

definition waiting_sessions_sql :: string where
  "waiting_sessions_sql = ''select wait_event_type, count(*) from pg_stat_activity group by wait_event_type having wait_event_type is not null;''"

definition tps_sql :: string where
  "tps_sql = ''SELECT total_calls / total_exec_time AS tps\<newline>                                    FROM (\<newline>                                    SELECT sum(calls) AS total_calls, sum(total_exec_time) AS total_exec_time\<newline>                                    FROM pg_stat_statements\<newline>                                    ) AS subquery;''"

definition latency_95th_sql :: string where
  "latency_95th_sql = ''SELECT percentile_cont(0.95) WITHIN GROUP (ORDER BY total_exec_time) AS latency_95th_percentile\<newline>                                    FROM pg_stat_statements;''"

definition stat_reset_sql :: string where
  "stat_reset_sql = ''select pg_stat_reset();''"

text \<open>
  The two cycles, \<open>collect_metrics_influx\<close> and \<open>collect_metrics_pg\<close>, are written in the
  source as one sequence of blocks each. Blocks that differ only in the two keys of the
  record they build (\<open>measurement\<close> and \<open>fields\<close>, or \<open>table\<close> and \<open>data\<close>) are modelled
  once, with the keys as parameters \<open>kn\<close> and \<open>kd\<close>.
\<close>

definition drop_stats_reset :: "'dt dict \<Rightarrow> 'dt dict" where
  "drop_stats_reset row =
     (if contains (ascii ''stats_reset'') row then delitem (ascii ''stats_reset'') row else row)"

definition new_metric :: "string \<Rightarrow> string \<Rightarrow> string \<Rightarrow> 'dt pyval \<Rightarrow> 'dt pyval" where
  "new_metric kn kd name data =
     PDict (setitem (ascii kd) data (setitem (ascii kn) (PStr (ascii name)) []))"

text \<open>The block \<open>bgwriter\<close>: a global view has exactly one row.\<close>

definition bgwriter_block ::
  "'dt database \<Rightarrow> 'dt pylib \<Rightarrow> string \<Rightarrow> string \<Rightarrow> nat \<Rightarrow> ('dt, unit) prog" where
  "bgwriter_block db lib kn kd metrics =
     bindS (get_metrics db lib ''SELECT * FROM pg_stat_bgwriter;'') (\<lambda>rows.
       if length rows \<noteq> 1 then raiseS AssertionError
       else bindS (liftE (index0 rows)) (\<lambda>row0.
         list_append metrics (new_metric kn kd ''bgwriter'' (PDict (drop_stats_reset row0)))))"

text \<open>The name of the records of a database view.\<close>

definition database_view_name :: "string \<Rightarrow> string" where
  "database_view_name view =
     (if view = ''pg_stat_database'' then ''database_statistics''
      else last (split_on (CHR ''_'') [] view))"

text \<open>
  The block \<open>database\<close> of \<open>collect_metrics_influx\<close>: one record per row, tagged with the
  row's \<open>datid\<close>.
\<close>

fun influx_database_rows :: "string \<Rightarrow> nat \<Rightarrow> 'dt dict list \<Rightarrow> ('dt, unit) prog" where
  "influx_database_rows view metrics [] = returnS ()"
| "influx_database_rows view metrics (row # rows) =
     bindS (liftE (getitem (ascii PG_STAT_VIEWS_LOCAL_KEY_database) row)) (\<lambda>key.
       let metric = setitem (ascii ''tags'')
                      (PDict (setitem (ascii PG_STAT_VIEWS_LOCAL_KEY_database) key []))
                      (setitem (ascii ''measurement'')
                         (PStr (ascii (database_view_name view))) []);
           row = drop_stats_reset (delitem (ascii PG_STAT_VIEWS_LOCAL_KEY_database) row)
       in bindS (list_append metrics (PDict (setitem (ascii ''fields'') (PDict row) metric)))
            (\<lambda>_. influx_database_rows view metrics rows))"

fun influx_database_views ::
  "'dt database \<Rightarrow> 'dt pylib \<Rightarrow> nat \<Rightarrow> string list \<Rightarrow> ('dt, unit) prog" where
  "influx_database_views db lib metrics [] = returnS ()"
| "influx_database_views db lib metrics (view # views) =
     bindS (get_metrics db lib (''SELECT * FROM '' @ view @ '';'')) (\<lambda>rows.
     bindS (influx_database_rows view metrics rows) (\<lambda>_.
       influx_database_views db lib metrics views))"

text \<open>The block \<open>database\<close> of \<open>collect_metrics_pg\<close>: one record per view, with all its rows.\<close>

fun pg_database_views ::
  "'dt database \<Rightarrow> 'dt pylib \<Rightarrow> nat \<Rightarrow> string list \<Rightarrow> ('dt, unit) prog" where
  "pg_database_views db lib metrics [] = returnS ()"
| "pg_database_views db lib metrics (view # views) =
     bindS (get_metrics db lib (''SELECT * FROM '' @ view @ '';'')) (\<lambda>rows.
     bindS (list_append metrics
              (new_metric ''table'' ''data'' (database_view_name view)
                 (PList (map (\<lambda>row. PDict (drop_stats_reset row)) rows)))) (\<lambda>_.
       pg_database_views db lib metrics views))"

text \<open>
  The blocks \<open>access\<close> and \<open>io\<close>: the first row of a table query, updated with the first
  row of an index query.
\<close>

definition pair_block ::
  "'dt database \<Rightarrow> 'dt pylib \<Rightarrow> string \<Rightarrow> string \<Rightarrow> nat \<Rightarrow> string \<Rightarrow> string \<Rightarrow> string
     \<Rightarrow> ('dt, unit) prog" where
  "pair_block db lib kn kd metrics view table_query index_query =
     bindS (get_metrics db lib table_query) (\<lambda>rows.
     bindS (liftE (index0 rows)) (\<lambda>row0.
     bindS (get_metrics db lib index_query) (\<lambda>rows.
     bindS (liftE (index0 rows)) (\<lambda>row1.
       list_append metrics
         (new_metric kn kd view (PDict (dict_update (drop_stats_reset row0) row1)))))))"

text \<open>The block \<open>sessions\<close>: five queries, one scalar each.\<close>

fun sessions_loop ::
  "'dt database \<Rightarrow> 'dt pylib \<Rightarrow> string list \<Rightarrow> 'dt dict \<Rightarrow> ('dt, 'dt dict) prog" where
  "sessions_loop db lib [] metric_fields = returnS metric_fields"
| "sessions_loop db lib (q # queries) metric_fields =
     bindS (cmd db q) (\<lambda>(res, meta).
     bindS (liftE (bindE (bindE (index0 res) index0) (py_int lib))) (\<lambda>i.
     bindS (liftE (index0 meta)) (\<lambda>k.
       sessions_loop db lib queries (setitem k (PInt i) metric_fields))))"

definition sessions_block ::
  "'dt database \<Rightarrow> 'dt pylib \<Rightarrow> string \<Rightarrow> string \<Rightarrow> nat \<Rightarrow> ('dt, unit) prog" where
  "sessions_block db lib kn kd metrics =
     bindS (sessions_loop db lib activity_queries []) (\<lambda>metric_fields.
       list_append metrics (new_metric kn kd ''sessions'' (PDict metric_fields)))"

text \<open>
  The block \<open>active_sessions\<close>: sessions by state, spaces (code point 32) in the state
  replaced by underscores.
\<close>

fun active_sessions_loop :: "'dt dict list \<Rightarrow> 'dt dict \<Rightarrow> error + 'dt dict" where
  "active_sessions_loop [] metric_fields = Inr metric_fields"
| "active_sessions_loop (row # rows) metric_fields =
     bindE (getitem (ascii ''state'') row) (\<lambda>st.
     bindE (case st of
              PStr s \<Rightarrow> Inr (replace_char 32 (ascii ''_'') s)
            | PDatetime _ \<Rightarrow> Inl TypeError
            | _ \<Rightarrow> Inl AttributeError) (\<lambda>state.
     bindE (getitem (ascii ''count'') (setitem (ascii ''state'') (PStr state) row)) (\<lambda>count.
       active_sessions_loop rows (setitem state count metric_fields))))"

definition active_sessions_block ::
  "'dt database \<Rightarrow> 'dt pylib \<Rightarrow> string \<Rightarrow> string \<Rightarrow> nat \<Rightarrow> ('dt, unit) prog" where
  "active_sessions_block db lib kn kd metrics =
     bindS (get_metrics db lib active_sessions_sql) (\<lambda>rows.
     bindS (liftE (active_sessions_loop rows [])) (\<lambda>metric_fields.
       list_append metrics (new_metric kn kd ''active_sessions'' (PDict metric_fields))))"

text \<open>The block \<open>waiting_sessions\<close>: sessions by wait-event type.\<close>

fun waiting_sessions_loop :: "'dt dict list \<Rightarrow> 'dt dict \<Rightarrow> error + 'dt dict" where
  "waiting_sessions_loop [] metric_fields = Inr metric_fields"
| "waiting_sessions_loop (row # rows) metric_fields =
     bindE (getitem (ascii ''count'') row) (\<lambda>count.
     bindE (getitem (ascii ''wait_event_type'') row) (\<lambda>k.
     bindE (hashable_key k) (\<lambda>k.
       waiting_sessions_loop rows (AList.update k count metric_fields))))"

definition waiting_sessions_block ::
  "'dt database \<Rightarrow> 'dt pylib \<Rightarrow> string \<Rightarrow> string \<Rightarrow> nat \<Rightarrow> ('dt, unit) prog" where
  "waiting_sessions_block db lib kn kd metrics =
     bindS (get_metrics db lib waiting_sessions_sql) (\<lambda>rows.
     bindS (liftE (waiting_sessions_loop rows [])) (\<lambda>metric_fields.
       list_append metrics (new_metric kn kd ''waiting_sessions'' (PDict metric_fields))))"

text \<open>
  The query statistics of \<open>collect_metrics_influx\<close>: one record per statement, tagged with
  its \<open>queryid\<close>.
\<close>

fun influx_query_statistics :: "nat \<Rightarrow> 'dt dict list \<Rightarrow> ('dt, unit) prog" where
  "influx_query_statistics metrics [] = returnS ()"
| "influx_query_statistics metrics (row # rows) =
     (let metric =
            setitem (ascii ''fields'')
              (PDict (dict_update [] (filter (\<lambda>(k, v). k \<noteq> PStr (ascii ''queryid'')) row)))
            (setitem (ascii ''tags'')
              (PDict (dict_update [] (filter (\<lambda>(k, v). k = PStr (ascii ''queryid'')) row)))
            (setitem (ascii ''measurement'') (PStr (ascii ''query_statistics'')) []))
      in bindS (list_append metrics (PDict metric))
           (\<lambda>_. influx_query_statistics metrics rows))"

definition collect_metrics_influx ::
  "'dt database \<Rightarrow> 'dt pylib \<Rightarrow> nat \<Rightarrow> ('dt, nat) prog" where
  "collect_metrics_influx db lib metrics =
     bindS (bgwriter_block db lib ''measurement'' ''fields'' metrics) (\<lambda>_.
     bindS (influx_database_views db lib metrics PG_STAT_VIEWS_LOCAL_RAW_database) (\<lambda>_.
     bindS (pair_block db lib ''measurement'' ''fields'' metrics ''access''
              TABLE_STAT INDEX_STAT) (\<lambda>_.
     bindS (pair_block db lib ''measurement'' ''fields'' metrics ''io''
              TABLE_STATIO INDEX_STATIO) (\<lambda>_.
     bindS (sessions_block db lib ''measurement'' ''fields'' metrics) (\<lambda>_.
     bindS (active_sessions_block db lib ''measurement'' ''fields'' metrics) (\<lambda>_.
     bindS (waiting_sessions_block db lib ''measurement'' ''fields'' metrics) (\<lambda>_.
     bindS (get_stat_statements db lib) (\<lambda>rows.
     bindS (influx_query_statistics metrics rows) (\<lambda>_.
     bindS (cmd_wo_fetch db stat_reset_sql) (\<lambda>_.
       returnS metrics))))))))))"

text \<open>
  The last two blocks of \<open>collect_metrics_pg\<close>: the query statistics as one record, and
  the record \<open>performance\<close>, read from \<open>pg_stat_statements\<close> after
  \<open>_get_stat_statements\<close> has returned.
\<close>

definition pg_query_statistics ::
  "'dt database \<Rightarrow> 'dt pylib \<Rightarrow> nat \<Rightarrow> ('dt, unit) prog" where
  "pg_query_statistics db lib metrics =
     bindS (get_stat_statements db lib) (\<lambda>rows.
       list_append metrics
         (new_metric ''table'' ''data'' ''query_statistics'' (PList (map PDict rows))))"

definition pg_performance ::
  "'dt database \<Rightarrow> 'dt pylib \<Rightarrow> nat \<Rightarrow> ('dt, unit) prog" where
  "pg_performance db lib metrics =
     bindS (get_metrics db lib tps_sql) (\<lambda>rows.
     bindS (liftE (index0 rows)) (\<lambda>tps.
     bindS (get_metrics db lib latency_95th_sql) (\<lambda>rows.
     bindS (liftE (index0 rows)) (\<lambda>latency_95th.
       list_append metrics
         (new_metric ''table'' ''data'' ''performance''
            (PList [PDict (dict_update (dict_update [] tps) latency_95th)]))))))"

definition collect_metrics_pg ::
  "'dt database \<Rightarrow> 'dt pylib \<Rightarrow> nat \<Rightarrow> ('dt, nat) prog" where
  "collect_metrics_pg db lib metrics =
     bindS (bgwriter_block db lib ''table'' ''data'' metrics) (\<lambda>_.
     bindS (pg_database_views db lib metrics PG_STAT_VIEWS_LOCAL_RAW_database) (\<lambda>_.
     bindS (pair_block db lib ''table'' ''data'' metrics ''access'' TABLE_STAT INDEX_STAT) (\<lambda>_.
     bindS (pair_block db lib ''table'' ''data'' metrics ''io'' TABLE_STATIO INDEX_STATIO) (\<lambda>_.
     bindS (sessions_block db lib ''table'' ''data'' metrics) (\<lambda>_.
     bindS (active_sessions_block db lib ''table'' ''data'' metrics) (\<lambda>_.
     bindS (waiting_sessions_block db lib ''table'' ''data'' metrics) (\<lambda>_.
     bindS (pg_query_statistics db lib metrics) (\<lambda>_.
     bindS (pg_performance db lib metrics) (\<lambda>_.
     bindS (cmd_wo_fetch db stat_reset_sql) (\<lambda>_.
       returnS metrics))))))))))"

section \<open>Sample connections\<close>







section \<open>Results on exceptions\<close>

lemma bindE_Inr_iff: "bindE m f = Inr y \<longleftrightarrow> (\<exists>x. m = Inr x \<and> f x = Inr y)"
  by (cases m) (simp_all add: bindE_def)

lemma bindE_Inr [simp]: "bindE (Inr x) f = f x"
  by (simp add: bindE_def)

lemma bindE_Inl [simp]: "bindE (Inl e) f = Inl e"
  by (simp add: bindE_def)

section \<open>Results on the target-list rendering\<close>

lemmas render_simps =
  target_tables_str_def target_indexes_str_def str_tuple_def str_int_def
  digits_of_nat.simps digit_char_def

text \<open>
  Claim C2, as the code has it. The rendered id list follows a three-way rule: no id
  renders as \<open>(0)\<close>, one id \<open>x\<close> as \<open>(x)\<close>, and two or more ids as all ids in input
  order between parentheses, separated by a comma and a space (Python's \<open>str\<close> of a
  tuple). The index list of \<open>collect_index_metrics\<close> is rendered by the same rule, and
  \<open>get_target_table_info\<close> returns the rendering of the ids it returns.
\<close>

theorem target_list_rendering:
  "target_tables_str [] = ''(0)''
   \<and> target_tables_str [x] = ''('' @ str_int x @ '')''
   \<and> (2 \<le> length ids \<longrightarrow>
        target_tables_str ids = ''('' @ join '', '' (map str_int ids) @ '')'')
   \<and> target_indexes_str ids = target_tables_str ids
   \<and> (get_target_table_info rows = Inr info \<longrightarrow>
        target_tables_string info = target_tables_str (target_tables info))"
  by (auto simp add: target_tables_str_def target_indexes_str_def str_tuple_def
        get_target_table_info_def bindE_Inr_iff)

theorem target_list_rendering_witness:
  "2 \<le> length [16384, 205 :: int]
   \<and> target_tables_str [16384, 205] = ''(16384, 205)''
   \<and> get_target_table_info [[16384, 7], [205, 3]]
       = Inr \<lparr> target_tables = [16384, 205], target_tables_string = ''(16384, 205)'' \<rparr>
   \<and> target_tables_string
         \<lparr> target_tables = [16384, 205], target_tables_string = ''(16384, 205)'' \<rparr>
       = target_tables_str [16384, 205]"
proof -
  let ?info = "\<lparr> target_tables = [16384, 205], target_tables_string = ''(16384, 205)'' \<rparr>"
  have g: "get_target_table_info [[16384, 7], [205, 3]] = Inr ?info"
    by (simp add: get_target_table_info_def render_simps)
  have l: "2 \<le> length [16384, 205 :: int]"
    by simp
  have j: "''('' @ join '', '' (map str_int [16384, 205]) @ '')'' = ''(16384, 205)''"
    by (simp add: str_int_def digits_of_nat.simps digit_char_def)
  note w = target_list_rendering [of 0 "[16384, 205]" "[[16384, 7], [205, 3]]" ?info]
  have "target_tables_str [16384, 205] = ''('' @ join '', '' (map str_int [16384, 205]) @ '')''"
    using w l by blast
  then have t: "target_tables_str [16384, 205] = ''(16384, 205)''"
    using j by (rule trans)
  have "target_tables_string ?info = target_tables_str (target_tables ?info)"
    using w g by blast
  then have "target_tables_string ?info = target_tables_str [16384, 205]"
    by simp
  with l t g show ?thesis by blast
qed

text \<open>
  Claim C2 as stated fails: two ids are not rendered in the form \<open>(id1,id2)\<close>; the
  separator has a space.
\<close>

theorem target_list_two_ids_have_space:
  "target_tables_str [1, 2] = ''(1, 2)'' \<and> target_tables_str [1, 2] \<noteq> ''(1,2)''
   \<and> target_indexes_str [1, 2] = ''(1, 2)'' \<and> target_indexes_str [1, 2] \<noteq> ''(1,2)''"
  by (simp add: render_simps)

section \<open>Results on reading metrics\<close>

lemma split_ws_words:
  assumes "\<forall>c\<in>set w. \<not> py_isspace c"
  shows "(\<forall>x\<in>set (split_ws w s). x \<noteq> [] \<and> (\<forall>c\<in>set x. \<not> py_isspace c))
         \<and> concat (split_ws w s) = w @ filter (\<lambda>c. \<not> py_isspace c) s"
  using assms
proof (induction s arbitrary: w)
  case Nil
  then show ?case by simp
next
  case (Cons c cs)
  show ?case
  proof (cases "py_isspace c")
    case True
    have ih: "(\<forall>x\<in>set (split_ws [] cs). x \<noteq> [] \<and> (\<forall>c\<in>set x. \<not> py_isspace c))
         \<and> concat (split_ws [] cs) = filter (\<lambda>c. \<not> py_isspace c) cs"
      using Cons.IH [of "[]"] by simp
    show ?thesis
    proof (cases "w = []")
      case True
      with ih \<open>py_isspace c\<close> show ?thesis by simp
    next
      case False
      with ih \<open>py_isspace c\<close> Cons.prems show ?thesis by simp
    qed
  next
    case False
    have "\<forall>c\<in>set (w @ [c]). \<not> py_isspace c"
      using False Cons.prems by simp
    from Cons.IH [OF this] False show ?thesis by simp
  qed
qed


lemma split_ws_at_space:
  "py_isspace c \<Longrightarrow> split_ws w (c # b) = split_ws w [] @ split_ws [] b"
  by simp








lemma row_loop_total:
  "idx + length data \<le> length col \<Longrightarrow> \<exists>r. row_loop lib col idx data row = Inr r"
  by (induction data arbitrary: idx row) auto












section \<open>Results on the padding\<close>

lemma and_not_mask_int: "(y::int) AND NOT (mask n) = y div 2 ^ n * 2 ^ n"
proof -
  have "y AND NOT (mask n) = push_bit n (drop_bit n y)"
    by (rule bit_eqI) (auto simp add: bit_simps)
  then show ?thesis
    by (simp add: push_bit_eq_mult drop_bit_eq_div)
qed

lemma round_up_mask_pow2: "round_up_mask x (2 ^ n) = (x + (2 ^ n - 1)) div 2 ^ n * 2 ^ n"
  using and_not_mask_int [of "x + (2 ^ n - 1)" n]
  by (simp add: round_up_mask_def mask_eq_exp_minus_1)

text \<open>
  For an alignment that is a power of two, the mask expression is the least multiple of
  the alignment that is not below the offset.
\<close>

lemma round_up_mask_bounds:
  assumes "a = 2 ^ n"
  shows "round_up_mask x a mod a = 0 \<and> x \<le> round_up_mask x a \<and> round_up_mask x a < x + a"
proof -
  have p: "(0::int) < 2 ^ n" by simp
  have e: "round_up_mask x a = (x + (a - 1)) div a * a"
    using assms round_up_mask_pow2 [of x n] by simp
  have "(x + (a - 1)) div a * a = (x + (a - 1)) - (x + (a - 1)) mod a"
    by (simp add: minus_mod_eq_div_mult)
  moreover have "0 \<le> (x + (a - 1)) mod a" "(x + (a - 1)) mod a < a"
    using p assms by simp_all
  ultimately have "x \<le> round_up_mask x a" "round_up_mask x a < x + a"
    using e by linarith+
  then show ?thesis by (simp add: e)
qed

lemma round_up_mask_1: "round_up_mask x 1 = x"
  using round_up_mask_pow2 [of x 0] by simp

lemma round_up_mask_2: "round_up_mask x 2 = (x + 1) div 2 * 2"
  using round_up_mask_pow2 [of x 1] by simp

lemma round_up_mask_4: "round_up_mask x 4 = (x + 3) div 4 * 4"
  using round_up_mask_pow2 [of x 2] by simp

lemma round_up_4_absorbs:
  assumes "a = 1 \<or> a = 2 \<or> a = 4"
  shows "round_up_mask (round_up_mask x a) 4 = round_up_mask x 4"
  using assms by (auto simp add: round_up_mask_1 round_up_mask_2 round_up_mask_4) presburger+

lemma padding_loop_append:
  "padding_loop A (xs @ ys) p off =
     bindE (padding_loop A xs p off) (\<lambda>(p', off'). padding_loop A ys p' off')"
  by (induction xs arbitrary: p off) (auto simp add: Let_def split: option.splits)

lemma final_step: "(offset + 3) AND (- 4) = round_up_mask offset 4"
  by (simp add: round_up_mask_def)

lemma padding_loop_refines:
  "map (\<lambda>f. A (attalign f)) rest = map Some aligns \<Longrightarrow>
   bindE (padding_loop A rest p off)
     (\<lambda>(padding, offset). Inr (padding + (round_up_mask offset 4 - offset)))
   = Inr (p + spec_padding_from off (zip aligns (map avg_width rest)))"
proof (induction rest arbitrary: aligns p off)
  case Nil
  then show ?case by simp
next
  case (Cons f rest)
  then obtain a as where as: "aligns = a # as" "A (attalign f) = Some a"
    "map (\<lambda>f. A (attalign f)) rest = map Some as"
    by (cases aligns) auto
  show ?case
    using Cons.IH [OF as(3)] as(1,2)
    by (simp add: Let_def round_up_mask_def)
qed

text \<open>
  Claim C4. For a non-empty column list whose later columns have their alignment code in
  the dictionary, \<open>_calculate_padding_size_for_table\<close> returns the padding of the
  specification's rule, computed over the alignments and widths of the columns (the
  alignment of the first column plays no role). For the columns (alignment 4, width 4),
  (alignment 1, width 1), (alignment 8, width 8) the result is 3.
\<close>

theorem padding_refines_spec:
  assumes "table_fields_info = field0 # rest"
    and "map (\<lambda>f. ALIGNMENT_DICT (attalign f)) rest = map Some aligns"
  shows "calculate_padding_size_for_table ALIGNMENT_DICT table_fields_info
           = Inr (spec_padding ((a0, avg_width field0) # zip aligns (map avg_width rest)))
         \<and> (ALIGNMENT_DICT c1 = Some 1 \<and> ALIGNMENT_DICT c8 = Some 8 \<longrightarrow>
              calculate_padding_size_for_table ALIGNMENT_DICT
                [(r1, n1, c4, 4), (r2, n2, c1, 1), (r3, n3, c8, 8)] = Inr 3)"
proof -
  have "calculate_padding_size_for_table ALIGNMENT_DICT table_fields_info
           = Inr (spec_padding ((a0, avg_width field0) # zip aligns (map avg_width rest)))"
    using padding_loop_refines [OF assms(2), of 0 "avg_width field0"] assms(1)
    by (simp add: calculate_padding_size_for_table_def spec_padding_def Let_def final_step)
  moreover have "calculate_padding_size_for_table ALIGNMENT_DICT
                [(r1, n1, c4, 4), (r2, n2, c1, 1), (r3, n3, c8, 8)] = Inr 3"
    if "ALIGNMENT_DICT c1 = Some 1 \<and> ALIGNMENT_DICT c8 = Some 8"
    using that
    by (simp add: calculate_padding_size_for_table_def attalign_def avg_width_def)
  ultimately show ?thesis by blast
qed

theorem padding_refines_spec_witness:
  "[(1544350, ''a'', ''i'', 4), (1544350, ''b'', ''c'', 1), (1544350, ''c'', ''d'', 8)]
     = (1544350, ''a'', ''i'', 4) # [(1544350, ''b'', ''c'', 1), (1544350, ''c'', ''d'', 8)]
   \<and> map (\<lambda>f. sample_alignment_dict (attalign f))
        [(1544350, ''b'', ''c'', 1), (1544350, ''c'', ''d'', 8)] = map Some [1, 8]
   \<and> sample_alignment_dict ''c'' = Some 1 \<and> sample_alignment_dict ''d'' = Some 8
   \<and> calculate_padding_size_for_table sample_alignment_dict
        [(1544350, ''a'', ''i'', 4), (1544350, ''b'', ''c'', 1), (1544350, ''c'', ''d'', 8)]
       = Inr 3
   \<and> spec_padding [(4, 4), (1, 1), (8, 8)] = 3"
proof -
  have h: "map (\<lambda>f. sample_alignment_dict (attalign f))
        [(1544350, ''b'', ''c'', 1), (1544350, ''c'', ''d'', 8)] = map Some [1, 8]"
    by (simp add: sample_alignment_dict_def attalign_def)
  have s: "spec_padding [(4, 4), (1, 1), (8, 8)] = 3"
    by (simp add: spec_padding_def round_up_mask_def)
  have d: "sample_alignment_dict ''c'' = Some 1 \<and> sample_alignment_dict ''d'' = Some 8"
    by (simp add: sample_alignment_dict_def)
  have t: "[(1544350, ''a'', ''i'', 4), (1544350, ''b'', ''c'', 1), (1544350, ''c'', ''d'', 8)]
     = (1544350, ''a'', ''i'', 4) # [(1544350, ''b'', ''c'', 1), (1544350, ''c'', ''d'', 8)]"
    by simp
  have "calculate_padding_size_for_table sample_alignment_dict
        [(1544350, ''a'', ''i'', 4), (1544350, ''b'', ''c'', 1), (1544350, ''c'', ''d'', 8)]
       = Inr 3"
    using d padding_refines_spec [OF t h, where ?a0.0 = 4 and ?c1.0 = "''c''"
        and ?c8.0 = "''d''" and ?r1.0 = 1544350 and ?n1.0 = "''a''" and ?c4.0 = "''i''"
        and ?r2.0 = 1544350 and ?n2.0 = "''b''" and ?r3.0 = 1544350 and ?n3.0 = "''c''"]
    by blast
  then show ?thesis
    using h s d by simp
qed

lemma round_up_mask_8: "round_up_mask x 8 = (x + 7) div 8 * 8"
  using round_up_mask_pow2 [of x 3] by simp

lemma round_up_8_then_4:
  fixes x :: int
  shows "((x + 7) div 8 * 8 + 3) div 4 * 4
           = (x + 3) div 4 * 4 + (if 1 \<le> x mod 8 \<and> x mod 8 \<le> 4 then 4 else 0)"
proof -
  define q where "q = x div 8"
  define r where "r = x mod 8"
  have x: "x = 8 * q + r"
    by (simp add: q_def r_def)
  have "0 \<le> r" and "r < 8"
    by (simp_all add: r_def)
  then have r: "r = 0 \<or> r = 1 \<or> r = 2 \<or> r = 3 \<or> r = 4 \<or> r = 5 \<or> r = 6 \<or> r = 7"
    by arith
  have m: "x mod 8 = r"
    by (simp add: r_def)
  have d8: "\<And>k. (8 * q + k) div 8 = q + k div 8"
    by simp
  have d4: "\<And>k. (8 * q + k) div 4 = 2 * q + k div 4"
  proof -
    fix k :: int
    have "(8 * q + k) div 4 = (k + (2 * q) * 4) div 4"
      by (simp add: algebra_simps)
    also have "\<dots> = 2 * q + k div 4"
      by simp
    finally show "(8 * q + k) div 4 = 2 * q + k div 4" .
  qed
  have a: "(x + 7) div 8 = q + (r + 7) div 8"
    unfolding x using d8 [of "r + 7"] by (simp add: algebra_simps)
  have b: "(x + 3) div 4 = 2 * q + (r + 3) div 4"
    unfolding x using d4 [of "r + 3"] by (simp add: algebra_simps)
  have c: "((q + (r + 7) div 8) * 8 + 3) div 4 = 2 * q + (((r + 7) div 8) * 8 + 3) div 4"
    using d4 [of "((r + 7) div 8) * 8 + 3"] by (simp add: algebra_simps)
  show ?thesis
    unfolding a b c m using r by (elim disjE) simp_all
qed

lemma round_up_4_after_8:
  "round_up_mask (round_up_mask x 8) 4
     = round_up_mask x 4 + (if 1 \<le> x mod 8 \<and> x mod 8 \<le> 4 then 4 else 0)"
  unfolding round_up_mask_8 round_up_mask_4 by (rule round_up_8_then_4)

lemma round_up_4_after:
  assumes "a = 1 \<or> a = 2 \<or> a = 4 \<or> a = 8"
  shows "round_up_mask (round_up_mask x a) 4
           = round_up_mask x 4 + (if a = 8 \<and> 1 \<le> x mod 8 \<and> x mod 8 \<le> 4 then 4 else 0)"
proof (cases "a = 8")
  case True
  then show ?thesis by (simp add: round_up_4_after_8)
next
  case False
  then have "a = 1 \<or> a = 2 \<or> a = 4" using assms by simp
  then show ?thesis using False by (simp add: round_up_4_absorbs)
qed

lemma padding_loop_last:
  assumes "avg_width z = 0" and "ALIGNMENT_DICT (attalign z) = Some a"
  shows "padding_loop ALIGNMENT_DICT [z] p off
           = Inr (p + (round_up_mask off a - off), round_up_mask off a)"
  using assms by (simp add: Let_def round_up_mask_def)

lemma padding_with_zero_width:
  assumes "avg_width z = 0" and "ALIGNMENT_DICT (attalign z) = Some a"
    and "a = 1 \<or> a = 2 \<or> a = 4 \<or> a = 8"
    and "padding_loop ALIGNMENT_DICT rest 0 (avg_width field0) = Inr (padding, offset)"
  shows "calculate_padding_size_for_table ALIGNMENT_DICT (field0 # rest)
           = Inr (padding + (round_up_mask offset 4 - offset))"
    and "calculate_padding_size_for_table ALIGNMENT_DICT ((field0 # rest) @ [z])
           = Inr (padding + (round_up_mask offset 4 - offset)
                  + (if a = 8 \<and> 1 \<le> offset mod 8 \<and> offset mod 8 \<le> 4 then 4 else 0))"
proof -
  show "calculate_padding_size_for_table ALIGNMENT_DICT (field0 # rest)
           = Inr (padding + (round_up_mask offset 4 - offset))"
    using assms(4) by (simp add: calculate_padding_size_for_table_def final_step)
  have "calculate_padding_size_for_table ALIGNMENT_DICT ((field0 # rest) @ [z])
          = Inr (padding + (round_up_mask offset a - offset)
                 + (round_up_mask (round_up_mask offset a) 4 - round_up_mask offset a))"
    using assms(4) padding_loop_last [where z = z and a = a and ALIGNMENT_DICT = ALIGNMENT_DICT, OF assms(1,2)]
    by (simp add: calculate_padding_size_for_table_def padding_loop_append final_step
          del: padding_loop.simps)
  then show "calculate_padding_size_for_table ALIGNMENT_DICT ((field0 # rest) @ [z])
           = Inr (padding + (round_up_mask offset 4 - offset)
                  + (if a = 8 \<and> 1 \<le> offset mod 8 \<and> offset mod 8 \<le> 4 then 4 else 0))"
    unfolding round_up_4_after [OF assms(3)] by simp
qed

text \<open>
  Claim C5, as the code has it. Take a column list that is not empty and append one
  final column of width zero whose alignment class is that of the last column, with an
  alignment of 1, 2, 4 or 8 bytes. When the loop over the original columns ends at
  offset \<open>offset\<close>, the computed padding is unchanged unless the alignment is 8 and
  \<open>offset mod 8\<close> is 1, 2, 3 or 4, and in that case it grows by exactly 4; so it is
  unchanged for every list of alignment 1, 2 or 4, and for alignment 8 exactly when
  \<open>offset mod 8\<close> is 0, 5, 6 or 7. When the loop raises on the original columns, both
  computations raise alike.
\<close>

theorem padding_zero_width_append:
  assumes "table_fields_info = field0 # rest"
    and "attalign z = attalign (last table_fields_info)"
    and "avg_width z = 0"
    and "ALIGNMENT_DICT (attalign z) = Some a" and "a = 1 \<or> a = 2 \<or> a = 4 \<or> a = 8"
  shows "(\<forall>e. padding_loop ALIGNMENT_DICT rest 0 (avg_width field0) = Inl e \<longrightarrow>
            calculate_padding_size_for_table ALIGNMENT_DICT (table_fields_info @ [z])
              = calculate_padding_size_for_table ALIGNMENT_DICT table_fields_info)
       \<and> (\<forall>padding offset.
            padding_loop ALIGNMENT_DICT rest 0 (avg_width field0) = Inr (padding, offset) \<longrightarrow>
              (calculate_padding_size_for_table ALIGNMENT_DICT (table_fields_info @ [z])
                 = calculate_padding_size_for_table ALIGNMENT_DICT table_fields_info)
              = (\<not> (a = 8 \<and> 1 \<le> offset mod 8 \<and> offset mod 8 \<le> 4))
              \<and> (\<exists>p. calculate_padding_size_for_table ALIGNMENT_DICT table_fields_info = Inr p
                    \<and> calculate_padding_size_for_table ALIGNMENT_DICT (table_fields_info @ [z])
                        = Inr (p + (if a = 8 \<and> 1 \<le> offset mod 8 \<and> offset mod 8 \<le> 4
                                    then 4 else 0))))"
proof (intro conjI allI impI)
  fix e
  assume "padding_loop ALIGNMENT_DICT rest 0 (avg_width field0) = Inl e"
  then show "calculate_padding_size_for_table ALIGNMENT_DICT (table_fields_info @ [z])
              = calculate_padding_size_for_table ALIGNMENT_DICT table_fields_info"
    by (simp add: assms(1) calculate_padding_size_for_table_def padding_loop_append)
next
  fix padding offset
  assume l: "padding_loop ALIGNMENT_DICT rest 0 (avg_width field0) = Inr (padding, offset)"
  note w = padding_with_zero_width [OF assms(3,4,5) l]
  show "(calculate_padding_size_for_table ALIGNMENT_DICT (table_fields_info @ [z])
                 = calculate_padding_size_for_table ALIGNMENT_DICT table_fields_info)
              = (\<not> (a = 8 \<and> 1 \<le> offset mod 8 \<and> offset mod 8 \<le> 4))"
    unfolding assms(1) w by simp
  show "\<exists>p. calculate_padding_size_for_table ALIGNMENT_DICT table_fields_info = Inr p
                    \<and> calculate_padding_size_for_table ALIGNMENT_DICT (table_fields_info @ [z])
                        = Inr (p + (if a = 8 \<and> 1 \<le> offset mod 8 \<and> offset mod 8 \<le> 4
                                    then 4 else 0))"
    unfolding assms(1) w
    by (rule exI [of _ "padding + (round_up_mask offset 4 - offset)"]) simp
qed

theorem padding_zero_width_append_witness:
  "[(7, ''a'', ''d'', 8), (7, ''b'', ''d'', 8)]
      = (7, ''a'', ''d'', 8) # [(7::int, ''b'', ''d'', 8::int)]
   \<and> attalign (7, ''z'', ''d'', 0) = attalign (last [(7, ''a'', ''d'', 8), (7, ''b'', ''d'', 8)])
   \<and> avg_width (7, ''z'', ''d'', 0) = 0
   \<and> sample_alignment_dict (attalign (7, ''z'', ''d'', 0)) = Some 8
   \<and> padding_loop sample_alignment_dict [(7, ''b'', ''d'', 8)] 0 (avg_width (7, ''a'', ''d'', 8))
       = Inr (0, 16)
   \<and> \<not> ((8::int) = 8 \<and> 1 \<le> (16::int) mod 8 \<and> (16::int) mod 8 \<le> 4)
   \<and> calculate_padding_size_for_table sample_alignment_dict
        ([(7, ''a'', ''d'', 8), (7, ''b'', ''d'', 8)] @ [(7, ''z'', ''d'', 0)])
       = calculate_padding_size_for_table sample_alignment_dict
           [(7, ''a'', ''d'', 8), (7, ''b'', ''d'', 8)]
   \<and> calculate_padding_size_for_table sample_alignment_dict
           [(7, ''a'', ''d'', 8), (7, ''b'', ''d'', 8)] = Inr 0"
proof -
  have h1: "[(7, ''a'', ''d'', 8), (7, ''b'', ''d'', 8)]
              = (7, ''a'', ''d'', 8) # [(7::int, ''b'', ''d'', 8::int)]"
    by simp
  have h2: "attalign (7, ''z'', ''d'', 0)
              = attalign (last [(7, ''a'', ''d'', 8), (7, ''b'', ''d'', 8)])"
    by (simp add: attalign_def)
  have h3: "avg_width (7, ''z'', ''d'', 0) = 0"
    by (simp add: avg_width_def)
  have h4: "sample_alignment_dict (attalign (7, ''z'', ''d'', 0)) = Some 8"
    by (simp add: sample_alignment_dict_def attalign_def)
  have l: "padding_loop sample_alignment_dict [(7, ''b'', ''d'', 8)] 0
             (avg_width (7, ''a'', ''d'', 8)) = Inr (0, 16)"
    by (simp add: sample_alignment_dict_def attalign_def avg_width_def)
  have c: "\<not> ((8::int) = 8 \<and> 1 \<le> (16::int) mod 8 \<and> (16::int) mod 8 \<le> 4)"
    by simp
  have v: "calculate_padding_size_for_table sample_alignment_dict
           [(7, ''a'', ''d'', 8), (7, ''b'', ''d'', 8)] = Inr 0"
    by (simp add: calculate_padding_size_for_table_def sample_alignment_dict_def
          attalign_def avg_width_def)
  note t = padding_zero_width_append
      [where table_fields_info = "[(7, ''a'', ''d'', 8), (7, ''b'', ''d'', 8)]"
         and z = "(7, ''z'', ''d'', 0)" and ALIGNMENT_DICT = sample_alignment_dict and a = 8,
       OF h1 h2 h3 h4, THEN conjunct2, rule_format, OF _ l, THEN conjunct1]
  have e: "calculate_padding_size_for_table sample_alignment_dict
        ([(7, ''a'', ''d'', 8), (7, ''b'', ''d'', 8)] @ [(7, ''z'', ''d'', 0)])
       = calculate_padding_size_for_table sample_alignment_dict
           [(7, ''a'', ''d'', 8), (7, ''b'', ''d'', 8)]"
    using t c by simp
  show ?thesis
    by (intro conjI h1 h2 h3 h4 l c e v)
qed

text \<open>
  Claim C5 as stated fails for an alignment of 8 bytes: after the columns (alignment 4,
  width 4), (alignment 8, width 4) the padding is 4, and with one more zero-width column
  of alignment 8 it is 8.
\<close>

theorem padding_zero_width_append_align8:
  "attalign (7, ''z'', ''d'', 0) = attalign (last [(7, ''a'', ''i'', 4), (7, ''b'', ''d'', 4)])
   \<and> avg_width (7, ''z'', ''d'', 0) = 0
   \<and> calculate_padding_size_for_table sample_alignment_dict
        [(7, ''a'', ''i'', 4), (7, ''b'', ''d'', 4)] = Inr 4
   \<and> calculate_padding_size_for_table sample_alignment_dict
        ([(7, ''a'', ''i'', 4), (7, ''b'', ''d'', 4)] @ [(7, ''z'', ''d'', 0)]) = Inr 8"
  by (simp add: calculate_padding_size_for_table_def sample_alignment_dict_def
        attalign_def avg_width_def)

section \<open>Results on the bloat ratio\<close>


text \<open>
  Claim C6. With the not-applicable flag set, the bloat ratio is absent, whatever the
  other factors are.
\<close>

theorem bloat_ratio_absent_when_na:
  "calculate_bloat_ratio_for_table True padding_size tpl_data_size tpl_hdr_size ma
     tblpages reltuples bs page_hdr fillfactor = Inr None"
  by (simp add: calculate_bloat_ratio_for_table_def)

text \<open>
  Claim C7. With the flag unset, when the estimated page count at full fill is computed
  and the table's page count less that estimate is not positive, the bloat ratio is
  exactly 0.
\<close>

theorem bloat_ratio_zero_when_not_positive:
  assumes "\<not> is_na"
    and "est_tblpages_ff_of padding_size tpl_data_size tpl_hdr_size ma reltuples bs page_hdr
           fillfactor = Inr est_tblpages_ff"
    and "tblpages - of_int est_tblpages_ff \<le> 0"
  shows "calculate_bloat_ratio_for_table is_na padding_size tpl_data_size tpl_hdr_size ma
           tblpages reltuples bs page_hdr fillfactor = Inr (Some 0)"
  using assms by (simp add: calculate_bloat_ratio_for_table_def bloat_ratio_of_def)

theorem bloat_ratio_zero_when_not_positive_witness:
  "\<not> False
   \<and> est_tblpages_ff_of 0 4 24 8 1000 8192 24 100 = Inr 5
   \<and> (1::real) - of_int 5 \<le> 0
   \<and> calculate_bloat_ratio_for_table False 0 4 24 8 1 1000 8192 24 100 = Inr (Some 0)"
proof -
  have e: "est_tblpages_ff_of 0 4 24 8 1000 8192 24 100 = Inr 5"
    by (simp add: est_tblpages_ff_of_def tpl_size_of_def py_truediv_def py_fmod_def
          py_imod_def)
  have "calculate_bloat_ratio_for_table False 0 4 24 8 1 1000 8192 24 100 = Inr (Some 0)"
    by (rule bloat_ratio_zero_when_not_positive [OF _ e]) simp_all
  then show ?thesis using e by simp
qed

text \<open>
  Claim C9. With the flag unset and a nonnegative estimated page count, the function
  returns a number and raises nothing: the division by the page count is evaluated only
  when the page count exceeds the estimate, hence only when it is positive. For a page
  count of zero or less the result is 0.
\<close>

theorem bloat_ratio_no_division_by_zero:
  assumes "\<not> is_na"
    and "est_tblpages_ff_of padding_size tpl_data_size tpl_hdr_size ma reltuples bs page_hdr
           fillfactor = Inr est_tblpages_ff"
    and "0 \<le> est_tblpages_ff"
  shows "calculate_bloat_ratio_for_table is_na padding_size tpl_data_size tpl_hdr_size ma
           tblpages reltuples bs page_hdr fillfactor
         = Inr (Some (if tblpages - of_int est_tblpages_ff > 0
                      then 100 * (tblpages - of_int est_tblpages_ff) / tblpages else 0))
       \<and> (tblpages - of_int est_tblpages_ff > 0 \<longrightarrow> tblpages > 0)
       \<and> (tblpages \<le> 0 \<longrightarrow>
           calculate_bloat_ratio_for_table is_na padding_size tpl_data_size tpl_hdr_size ma
             tblpages reltuples bs page_hdr fillfactor = Inr (Some 0))"
proof -
  have pos: "tblpages > 0" if "tblpages - of_int est_tblpages_ff > 0"
  proof -
    have "(0::real) \<le> of_int est_tblpages_ff" using assms(3) by simp
    with that show ?thesis by linarith
  qed
  have r: "calculate_bloat_ratio_for_table is_na padding_size tpl_data_size tpl_hdr_size ma
           tblpages reltuples bs page_hdr fillfactor
         = Inr (Some (if tblpages - of_int est_tblpages_ff > 0
                      then 100 * (tblpages - of_int est_tblpages_ff) / tblpages else 0))"
    using assms(1,2) pos
    by (auto simp add: calculate_bloat_ratio_for_table_def bloat_ratio_of_def py_truediv_def)
  have "tblpages \<le> 0 \<longrightarrow>
           calculate_bloat_ratio_for_table is_na padding_size tpl_data_size tpl_hdr_size ma
             tblpages reltuples bs page_hdr fillfactor = Inr (Some 0)"
    using r pos by auto
  with r pos show ?thesis by blast
qed

theorem bloat_ratio_no_division_by_zero_witness:
  "\<not> False
   \<and> est_tblpages_ff_of 0 4 24 8 1000 8192 24 100 = Inr 5
   \<and> (0::int) \<le> 5
   \<and> (10::real) - of_int 5 > 0 \<and> (10::real) > 0
   \<and> calculate_bloat_ratio_for_table False 0 4 24 8 10 1000 8192 24 100 = Inr (Some 50)
   \<and> (0::real) \<le> 0
   \<and> calculate_bloat_ratio_for_table False 0 4 24 8 0 1000 8192 24 100 = Inr (Some 0)"
proof -
  have e: "est_tblpages_ff_of 0 4 24 8 1000 8192 24 100 = Inr 5"
    by (simp add: est_tblpages_ff_of_def tpl_size_of_def py_truediv_def py_fmod_def
          py_imod_def)
  show ?thesis
    using e bloat_ratio_no_division_by_zero [OF _ e, of False 10]
      bloat_ratio_no_division_by_zero [OF _ e, of False 0]
    by simp
qed







end
